theory Spec2Isabelle
  imports Complex_Main "HOL-Library.AList"
begin

section \<open>Python values used by the instrumentation\<close>

subsection \<open>Exceptions\<close>

text \<open>
  A raised Python exception: whether its class derives from \<^verbatim>\<open>Exception\<close> (as opposed
  to deriving only from \<^verbatim>\<open>BaseException\<close>, like \<^verbatim>\<open>KeyboardInterrupt\<close> and
  \<^verbatim>\<open>SystemExit\<close>), the name of its class, and the text that \<^verbatim>\<open>str(e)\<close> returns.
  The clause \<^verbatim>\<open>except Exception\<close> of the source catches exactly the first kind.
  Strings are byte lists; text outside ASCII is held in UTF-8.
\<close>

datatype exn = Exn (is_Exception: bool) (exn_type: string) (exn_msg: string)

subsection \<open>Binary64 floating point\<close>

text \<open>
  A Python \<^verbatim>\<open>float\<close> is an IEEE 754 binary64 number: a sign with a magnitude (so that
  \<^verbatim>\<open>-0.0\<close> is a value of its own), an infinity, or a NaN. The magnitude is kept as the
  exact rational it denotes; every operation below returns magnitudes that binary64 can hold,
  because each result passes through \<open>fl_round\<close>.
\<close>

datatype float64 = Finite (fsign: bool) (fmag: rat) | Infinity bool | NaN

fun floor_log :: "nat \<Rightarrow> nat \<Rightarrow> nat" where
  "floor_log b n = (if b < 2 \<or> n < b then 0 else Suc (floor_log b (n div b)))"

definition floor_logq :: "nat \<Rightarrow> rat \<Rightarrow> int" where
  "floor_logq b q =
     (if 1 \<le> q then int (floor_log b (nat \<lfloor>q\<rfloor>))
      else - int (Suc (floor_log b (nat (\<lceil>1 / q\<rceil> - 1)))))"

definition pow :: "rat \<Rightarrow> int \<Rightarrow> rat" where
  "pow b e = (if 0 \<le> e then b ^ nat e else 1 / b ^ nat (- e))"

definition round_half_even :: "rat \<Rightarrow> int" where
  "round_half_even x =
     (let f = \<lfloor>x\<rfloor>; d = x - of_int f
      in if d < 1 / 2 then f else if 1 / 2 < d then f + 1 else if even f then f else f + 1)"

text \<open>The least magnitude that no longer fits binary64, \<open>2 ^ 1024\<close>, written out.\<close>

definition float64_overflow :: rat where
  "float64_overflow = 179769313486231590772930519078902473361797697894230657273430081157732675805500963132708477322407536021120113879871393357658789768814416622492847430639474124377767893424865485276302219601246094119453082952085005768838150682342462881473913110540827237163350510684586298239947245938479716304835356329624224137216"

text \<open>
  Rounding of a non-negative exact magnitude to binary64, to nearest with ties to even:
  53 significant bits, the quantum never below \<open>2 ^ - 1074\<close> (subnormal range), and
  overflow to infinity.
\<close>

definition fl_round :: "bool \<Rightarrow> rat \<Rightarrow> float64" where
  "fl_round s q =
     (if q \<le> 0 then Finite s 0
      else let p = max (floor_logq 2 q - 52) (- 1074);
               r = of_int (round_half_even (q / pow 2 p)) * pow 2 p
           in if float64_overflow \<le> r then Infinity s else Finite s r)"

text \<open>A decimal literal of the source text, such as \<^verbatim>\<open>0.1\<close>.\<close>

definition float_literal :: "rat \<Rightarrow> float64" where
  "float_literal q = fl_round (q < 0) \<bar>q\<bar>"

fun f_neg :: "float64 \<Rightarrow> float64" where
  "f_neg (Finite s m) = Finite (\<not> s) m"
| "f_neg (Infinity s) = Infinity (\<not> s)"
| "f_neg NaN = NaN"

definition fval :: "bool \<Rightarrow> rat \<Rightarrow> rat" where
  "fval s m = (if s then - m else m)"

fun f_add :: "float64 \<Rightarrow> float64 \<Rightarrow> float64" where
  "f_add (Finite s m) (Finite t n) =
     (let v = fval s m + fval t n
      in if v = 0 then Finite (s \<and> t) 0 else fl_round (v < 0) \<bar>v\<bar>)"
| "f_add (Finite s m) (Infinity t) = Infinity t"
| "f_add (Infinity s) (Finite t n) = Infinity s"
| "f_add (Infinity s) (Infinity t) = (if s = t then Infinity s else NaN)"
| "f_add NaN y = NaN"
| "f_add x NaN = NaN"

definition f_sub :: "float64 \<Rightarrow> float64 \<Rightarrow> float64" where
  "f_sub x y = f_add x (f_neg y)"

fun f_mul :: "float64 \<Rightarrow> float64 \<Rightarrow> float64" where
  "f_mul (Finite s m) (Finite t n) = fl_round (s \<noteq> t) (m * n)"
| "f_mul (Finite s m) (Infinity t) = (if m = 0 then NaN else Infinity (s \<noteq> t))"
| "f_mul (Infinity s) (Finite t n) = (if n = 0 then NaN else Infinity (s \<noteq> t))"
| "f_mul (Infinity s) (Infinity t) = Infinity (s \<noteq> t)"
| "f_mul NaN y = NaN"
| "f_mul x NaN = NaN"

text \<open>The comparisons \<^verbatim>\<open>x < 0\<close>, \<^verbatim>\<open>x >= 0\<close> and \<^verbatim>\<open>x <= y\<close>.\<close>

fun f_lt_zero :: "float64 \<Rightarrow> bool" where
  "f_lt_zero (Finite s m) = (s \<and> 0 < m)"
| "f_lt_zero (Infinity s) = s"
| "f_lt_zero NaN = False"

fun f_ge_zero :: "float64 \<Rightarrow> bool" where
  "f_ge_zero (Finite s m) = (\<not> s \<or> m \<le> 0)"
| "f_ge_zero (Infinity s) = (\<not> s)"
| "f_ge_zero NaN = False"

fun f_le :: "float64 \<Rightarrow> float64 \<Rightarrow> bool" where
  "f_le (Finite s m) (Finite t n) = (fval s m \<le> fval t n)"
| "f_le (Infinity s) (Infinity t) = (s \<or> \<not> t)"
| "f_le (Infinity s) (Finite t n) = s"
| "f_le (Finite s m) (Infinity t) = (\<not> t)"
| "f_le NaN y = False"
| "f_le x NaN = False"

text \<open>
  \<^verbatim>\<open>round(x, 2)\<close>: the exact value of \<open>x\<close> is rounded to two decimal places, ties to
  even, and the decimal result is converted back to the nearest binary64. Infinities and NaN
  are returned as they are.
\<close>

fun py_round2 :: "float64 \<Rightarrow> float64" where
  "py_round2 (Finite s m) = fl_round s (of_int (round_half_even (m * 100)) / 100)"
| "py_round2 x = x"

subsection \<open>Text of numbers\<close>

fun digits_of :: "nat \<Rightarrow> string" where
  "digits_of n =
     (if n < 10 then [''0123456789'' ! n]
      else digits_of (n div 10) @ [''0123456789'' ! (n mod 10)])"

text \<open>
  \<^verbatim>\<open>repr\<close> of a float is the shortest decimal string that reads back as the same
  binary64. For a digit count \<open>n\<close>, the only decimals of \<open>n\<close> significant digits
  that can read back as \<open>m\<close> are the two that enclose it.
\<close>

definition decimal_candidate :: "rat \<Rightarrow> nat \<Rightarrow> (nat \<times> int) option" where
  "decimal_candidate m n =
     (let k = floor_logq 10 m - int n + 1;
          lo = \<lfloor>m / pow 10 k\<rfloor>;
          hi = lo + 1;
          ok_lo = (fl_round False (of_int lo * pow 10 k) = Finite False m);
          ok_hi = (fl_round False (of_int hi * pow 10 k) = Finite False m);
          dl = m - of_int lo * pow 10 k;
          dh = of_int hi * pow 10 k - m
      in if ok_lo \<and> (\<not> ok_hi \<or> dl < dh \<or> (dl = dh \<and> even lo)) then Some (nat lo, k)
         else if ok_hi then Some (nat hi, k)
         else None)"

fun shortest_digits :: "rat \<Rightarrow> nat list \<Rightarrow> nat \<times> int" where
  "shortest_digits m [] =
     (let k = floor_logq 10 m - 16 in (nat (round_half_even (m / pow 10 k)), k))"
| "shortest_digits m (n # ns) =
     (case decimal_candidate m n of Some c \<Rightarrow> c | None \<Rightarrow> shortest_digits m ns)"

fun strip_zeros :: "nat \<Rightarrow> int \<Rightarrow> nat \<times> int" where
  "strip_zeros d k =
     (if 0 < d \<and> d mod 10 = 0 then strip_zeros (d div 10) (k + 1) else (d, k))"

text \<open>
  The digits are laid out in positional notation when the decimal point falls within
  \<open>- 4 < decpt \<le> 16\<close>, and with an exponent of at least two digits otherwise.
\<close>

definition float_repr_mag :: "rat \<Rightarrow> string" where
  "float_repr_mag m =
     (if m = 0 then ''0.0''
      else let (d, k) = (case shortest_digits m [1..<18] of (d, k) \<Rightarrow> strip_zeros d k);
               ds = digits_of d;
               n = length ds;
               decpt = int n + k
           in if decpt \<le> - 4 \<or> 16 < decpt then
                hd ds # (if 1 < n then ''.'' @ tl ds else '''') @ ''e''
                  @ (if decpt - 1 < 0 then ''-'' else ''+'')
                  @ (let es = digits_of (nat \<bar>decpt - 1\<bar>)
                     in if length es < 2 then ''0'' @ es else es)
              else if decpt \<le> 0 then ''0.'' @ replicate (nat (- decpt)) (CHR ''0'') @ ds
              else if int n \<le> decpt then ds @ replicate (nat decpt - n) (CHR ''0'') @ ''.0''
              else take (nat decpt) ds @ ''.'' @ drop (nat decpt) ds)"

fun float_repr :: "float64 \<Rightarrow> string" where
  "float_repr (Finite s m) = (if s then ''-'' else '''') @ float_repr_mag m"
| "float_repr (Infinity s) = (if s then ''-inf'' else ''inf'')"
| "float_repr NaN = ''nan''"

text \<open>
  \<^verbatim>\<open>str\<close> of an \<^verbatim>\<open>int\<close>. CPython refuses to convert an integer of more than 4300
  decimal digits and raises \<^verbatim>\<open>ValueError\<close>.
\<close>

definition int_str :: "int \<Rightarrow> exn + string" where
  "int_str n =
     (let ds = digits_of (nat \<bar>n\<bar>)
      in if 4300 < length ds then
           Inl (Exn True ''ValueError''
             (''Exceeds the limit (4300 digits) for integer string conversion; ''
               @ ''use sys.set_int_max_str_digits() to increase the limit''))
         else Inr ((if n < 0 then ''-'' else '''') @ ds))"

subsection \<open>Numbers and their arithmetic\<close>

datatype pynum = PyInt int | PyFloat float64

text \<open>An \<^verbatim>\<open>int\<close> operand of a mixed operation is converted to \<^verbatim>\<open>float\<close> first.\<close>

fun to_float :: "pynum \<Rightarrow> exn + float64" where
  "to_float (PyFloat x) = Inr x"
| "to_float (PyInt n) =
     (case fl_round (n < 0) (of_int \<bar>n\<bar>) of
        Finite s m \<Rightarrow> Inr (Finite s m)
      | _ \<Rightarrow> Inl (Exn True ''OverflowError'' ''int too large to convert to float''))"

definition float_op ::
  "(float64 \<Rightarrow> float64 \<Rightarrow> float64) \<Rightarrow> pynum \<Rightarrow> pynum \<Rightarrow> exn + pynum" where
  "float_op f x y =
     (case to_float x of
        Inl e \<Rightarrow> Inl e
      | Inr a \<Rightarrow> (case to_float y of Inl e \<Rightarrow> Inl e | Inr b \<Rightarrow> Inr (PyFloat (f a b))))"

fun num_add :: "pynum \<Rightarrow> pynum \<Rightarrow> exn + pynum" where
  "num_add (PyInt a) (PyInt b) = Inr (PyInt (a + b))"
| "num_add x y = float_op f_add x y"

fun num_mul :: "pynum \<Rightarrow> pynum \<Rightarrow> exn + pynum" where
  "num_mul (PyInt a) (PyInt b) = Inr (PyInt (a * b))"
| "num_mul x y = float_op f_mul x y"

fun num_lt_zero :: "pynum \<Rightarrow> bool" where
  "num_lt_zero (PyInt n) = (n < 0)"
| "num_lt_zero (PyFloat x) = f_lt_zero x"

fun num_str :: "pynum \<Rightarrow> exn + string" where
  "num_str (PyInt n) = int_str n"
| "num_str (PyFloat x) = Inr (float_repr x)"

section \<open>The logging machinery the decorator relies on\<close>

subsection \<open>Documents, messages and records\<close>

text \<open>
  A stored document is a Python \<^verbatim>\<open>dict\<close> with string keys, kept as an association list
  in insertion order. Its values are the kinds of value the program puts there: strings,
  \<^verbatim>\<open>None\<close>, floats and the \<^verbatim>\<open>datetime\<close> of the handler (held as the clock reading it
  was taken from).
\<close>

datatype field = FNone | FStr string | FFloat float64 | FDatetime float64

type_synonym doc = "(string \<times> field) list"

text \<open>
  The \<^verbatim>\<open>msg\<close> of a \<^verbatim>\<open>LogRecord\<close> is any object. The handler tells a \<^verbatim>\<open>dict\<close> from the
  rest and applies \<^verbatim>\<open>str\<close> to the rest: a plain string is its own \<^verbatim>\<open>str\<close>, any other
  object is described by what its \<^verbatim>\<open>__str__\<close> does, return a text or raise.
\<close>

datatype msg = MsgDict doc | MsgStr string | MsgObj "exn + string"

record log_record =
  msg :: msg
  levelno :: nat
  levelname :: string

text \<open>The numeric levels of the standard \<^verbatim>\<open>logging\<close> module.\<close>

definition NOTSET :: nat where "NOTSET = 0"
definition DEBUG :: nat where "DEBUG = 10"
definition INFO :: nat where "INFO = 20"
definition WARNING :: nat where "WARNING = 30"
definition ERROR :: nat where "ERROR = 40"

subsection \<open>Handlers, loggers and the world\<close>

text \<open>
  A collection is named by the connection string, the database name and the collection name
  it was obtained with. A \<^verbatim>\<open>MongoDBHandler\<close> holds its collection and the level inherited
  from \<^verbatim>\<open>logging.Handler\<close>.
\<close>

type_synonym collection = "string \<times> string \<times> string"

record handler =
  h_collection :: collection
  h_level :: nat

record logger =
  l_level :: nat
  l_handlers :: "handler list"

datatype stderr_event = LoggingError exn log_record | LastResort log_record

text \<open>
  The state outside the decorator:
  \<^item> \<open>loggers\<close>: the registry of named loggers of the \<^verbatim>\<open>logging\<close> module. A name that was
    never asked for holds a new logger (level \<open>NOTSET\<close>, no handler), which is what
    \<^verbatim>\<open>getLogger\<close> makes on first use. Only the handlers of named loggers are tracked; the
    root logger has none, as nothing in the program configures it.
  \<^item> \<open>stored\<close>: the documents each collection holds.
  \<^item> \<open>insert_calls\<close>: every call of \<^verbatim>\<open>insert_one\<close> made so far, in order.
  \<^item> \<open>store_fault\<close>: whether the \<open>n\<close>-th call of \<^verbatim>\<open>insert_one\<close> fails, and with which
    driver error (class name and message). The driver's errors derive from \<^verbatim>\<open>Exception\<close>.
  \<^item> \<open>stderr\<close>: what the logging module wrote to the standard error stream.
  \<^item> \<open>clock\<close>, \<open>ticks\<close>: the successive readings of the wall clock and how many were taken.
\<close>

record world =
  loggers :: "string \<Rightarrow> logger"
  stored :: "collection \<Rightarrow> doc list"
  insert_calls :: "(collection \<times> doc) list"
  store_fault :: "nat \<Rightarrow> (string \<times> string) option"
  stderr :: "stderr_event list"
  clock :: "nat \<Rightarrow> float64"
  ticks :: nat

definition new_logger :: logger where
  "new_logger = \<lparr>l_level = NOTSET, l_handlers = []\<rparr>"

definition initial_world :: "(nat \<Rightarrow> float64) \<Rightarrow> (nat \<Rightarrow> (string \<times> string) option) \<Rightarrow> world" where
  "initial_world clk fault =
     \<lparr>loggers = (\<lambda>name. new_logger), stored = (\<lambda>c. []), insert_calls = [],
      store_fault = fault, stderr = [], clock = clk, ticks = 0\<rparr>"

text \<open>\<^verbatim>\<open>time()\<close> and \<^verbatim>\<open>datetime.now()\<close> each take one reading of the wall clock.\<close>

definition time :: "world \<Rightarrow> float64 \<times> world" where
  "time w = (clock w (ticks w), w\<lparr>ticks := Suc (ticks w)\<rparr>)"

definition datetime_now :: "world \<Rightarrow> field \<times> world" where
  "datetime_now w = (FDatetime (clock w (ticks w)), w\<lparr>ticks := Suc (ticks w)\<rparr>)"

text \<open>
  \<^verbatim>\<open>Collection.insert_one\<close>: the call is made; it either raises the driver error that the
  fault table holds for this call, or appends the document to the collection.
\<close>

definition insert_one :: "collection \<Rightarrow> doc \<Rightarrow> world \<Rightarrow> (exn + unit) \<times> world" where
  "insert_one c d w =
     (let w' = w\<lparr>insert_calls := insert_calls w @ [(c, d)]\<rparr>
      in case store_fault w (length (insert_calls w)) of
           Some (cls, m) \<Rightarrow> (Inl (Exn True cls m), w')
         | None \<Rightarrow> (Inr (), w'\<lparr>stored := (stored w)(c := stored w c @ [d])\<rparr>))"

text \<open>
  \<^verbatim>\<open>Handler.handleError\<close> of the standard library: it reports the exception being handled
  on the standard error stream and returns.
\<close>

definition handleError :: "exn \<Rightarrow> log_record \<Rightarrow> world \<Rightarrow> world" where
  "handleError e r w = w\<lparr>stderr := stderr w @ [LoggingError e r]\<rparr>"

definition setLevel :: "string \<Rightarrow> nat \<Rightarrow> world \<Rightarrow> world" where
  "setLevel name lvl w = w\<lparr>loggers := (loggers w)(name := (loggers w name)\<lparr>l_level := lvl\<rparr>)\<rparr>"

text \<open>
  \<^verbatim>\<open>Logger.addHandler\<close> appends a handler object that is not among the handlers yet. The
  only call in the program passes a handler made just before, so it is always appended.
\<close>

definition addHandler :: "string \<Rightarrow> handler \<Rightarrow> world \<Rightarrow> world" where
  "addHandler name hdlr w =
     w\<lparr>loggers := (loggers w)(name := (loggers w name)\<lparr>l_handlers := l_handlers (loggers w name) @ [hdlr]\<rparr>)\<rparr>"

section \<open>\<^verbatim>\<open>mongodb_handler.py\<close>\<close>

definition MongoDBHandler_init :: "collection \<Rightarrow> handler" where
  "MongoDBHandler_init c = \<lparr>h_collection = c, h_level = NOTSET\<rparr>"

text \<open>The body of the \<^verbatim>\<open>try\<close> of \<^verbatim>\<open>emit\<close> up to the dictionary that will be stored.\<close>

fun log_entry_of :: "msg \<Rightarrow> exn + doc" where
  "log_entry_of (MsgDict d) = Inr d"
| "log_entry_of (MsgStr s) = Inr [(''message'', FStr s)]"
| "log_entry_of (MsgObj (Inr s)) = Inr [(''message'', FStr s)]"
| "log_entry_of (MsgObj (Inl e)) = Inl e"

text \<open>\<^verbatim>\<open>log_entry.update({"timestamp": ..., "level": ...})\<close>.\<close>

definition enrich :: "field \<Rightarrow> string \<Rightarrow> doc \<Rightarrow> doc" where
  "enrich ts lvl d = AList.update ''level'' (FStr lvl) (AList.update ''timestamp'' ts d)"

text \<open>
  The clause \<^verbatim>\<open>except Exception: self.handleError(record)\<close>: an exception deriving from
  \<^verbatim>\<open>Exception\<close> is reported and \<^verbatim>\<open>emit\<close> returns; any other one leaves \<^verbatim>\<open>emit\<close>.
\<close>

definition emit_except :: "exn \<Rightarrow> log_record \<Rightarrow> world \<Rightarrow> (exn + unit) \<times> log_record \<times> world" where
  "emit_except e r w = (if is_Exception e then (Inr (), r, handleError e r w) else (Inl e, r, w))"

text \<open>
  \<^verbatim>\<open>MongoDBHandler.emit\<close>. When the message is a dictionary, \<^verbatim>\<open>log_entry\<close> is that very
  dictionary, so the update changes the record's message too; the record is returned with
  the outcome and the new world.
\<close>

definition emit :: "handler \<Rightarrow> log_record \<Rightarrow> world \<Rightarrow> (exn + unit) \<times> log_record \<times> world" where
  "emit self r w =
     (case log_entry_of (msg r) of
        Inl e \<Rightarrow> emit_except e r w
      | Inr log_entry \<Rightarrow>
          (let (ts, w1) = datetime_now w;
               log_entry' = enrich ts (levelname r) log_entry;
               r' = (case msg r of MsgDict d \<Rightarrow> r\<lparr>msg := MsgDict log_entry'\<rparr> | _ \<Rightarrow> r)
           in case insert_one (h_collection self) log_entry' w1 of
                (Inl e, w2) \<Rightarrow> emit_except e r' w2
              | (Inr u, w2) \<Rightarrow> (Inr (), r', w2)))"

subsection \<open>Dispatch of a record by a logger\<close>

text \<open>
  \<^verbatim>\<open>Logger.callHandlers\<close>: every handler of the logger whose level admits the record gets
  it, in order; an exception leaving a handler ends the dispatch. A logger without any
  handler hands the record to the handler of last resort, which prints records of level
  \<open>WARNING\<close> and above on the standard error stream.
\<close>

fun call_handlers ::
  "handler list \<Rightarrow> log_record \<Rightarrow> world \<Rightarrow> (exn + unit) \<times> log_record \<times> world" where
  "call_handlers [] r w = (Inr (), r, w)"
| "call_handlers (h # hs) r w =
     (if h_level h \<le> levelno r then
        (case emit h r w of
           (Inl e, r', w') \<Rightarrow> (Inl e, r', w')
         | (Inr u, r', w') \<Rightarrow> call_handlers hs r' w')
      else call_handlers hs r w)"

definition last_resort :: "log_record \<Rightarrow> world \<Rightarrow> (exn + unit) \<times> log_record \<times> world" where
  "last_resort r w =
     (if WARNING \<le> levelno r then
        (case msg r of
           MsgObj (Inl e) \<Rightarrow> emit_except e r w
         | _ \<Rightarrow> (Inr (), r, w\<lparr>stderr := stderr w @ [LastResort r]\<rparr>))
      else (Inr (), r, w))"

definition callHandlers :: "logger \<Rightarrow> log_record \<Rightarrow> world \<Rightarrow> (exn + unit) \<times> log_record \<times> world" where
  "callHandlers l r w = (if l_handlers l = [] then last_resort r w else call_handlers (l_handlers l) r w)"

text \<open>
  \<^verbatim>\<open>Logger.getEffectiveLevel\<close>: a logger at \<open>NOTSET\<close> takes the level of the root logger,
  which is \<open>WARNING\<close>.
\<close>

definition getEffectiveLevel :: "logger \<Rightarrow> nat" where
  "getEffectiveLevel l = (if l_level l = NOTSET then WARNING else l_level l)"

definition logger_log :: "string \<Rightarrow> nat \<Rightarrow> string \<Rightarrow> msg \<Rightarrow> world \<Rightarrow> (exn + unit) \<times> world" where
  "logger_log name lvl lvlname m w =
     (let l = loggers w name
      in if getEffectiveLevel l \<le> lvl then
           (case callHandlers l \<lparr>msg = m, levelno = lvl, levelname = lvlname\<rparr> w of
              (res, r', w') \<Rightarrow> (res, w'))
         else (Inr (), w))"

definition logger_info :: "string \<Rightarrow> msg \<Rightarrow> world \<Rightarrow> (exn + unit) \<times> world" where
  "logger_info name m w = logger_log name INFO ''INFO'' m w"

definition logger_error :: "string \<Rightarrow> msg \<Rightarrow> world \<Rightarrow> (exn + unit) \<times> world" where
  "logger_error name m w = logger_log name ERROR ''ERROR'' m w"

section \<open>\<^verbatim>\<open>decorator.py\<close>\<close>

record decorator =
  d_collection :: collection
  d_logger :: string

text \<open>
  \<^verbatim>\<open>MongoDBLogDecorator.__init__\<close>: the collection is looked up, the logger named
  \<^verbatim>\<open>MongoDBLogger\<close> is fetched and set to \<open>DEBUG\<close>, and a handler for the collection is
  added only when the logger has no handler yet.
\<close>

definition MongoDBLogDecorator_init ::
  "string \<Rightarrow> string \<Rightarrow> string \<Rightarrow> world \<Rightarrow> decorator \<times> world" where
  "MongoDBLogDecorator_init connection_string db_name collection_name w =
     (let coll = (connection_string, db_name, collection_name);
          w1 = setLevel ''MongoDBLogger'' DEBUG w;
          w2 = (if l_handlers (loggers w1 ''MongoDBLogger'') = []
                then addHandler ''MongoDBLogger'' (MongoDBHandler_init coll) w1
                else w1)
      in (\<lparr>d_collection = coll, d_logger = ''MongoDBLogger''\<rparr>, w2))"

text \<open>
  A decorated function: its \<^verbatim>\<open>__name__\<close> and what a call does with the positional
  arguments \<open>'a\<close> and the keyword arguments \<open>'k\<close>, return a value \<open>'r\<close> or raise. The
  wrapper touches the arguments and the result only through \<^verbatim>\<open>str\<close>, which belongs to
  the values: \<open>str_args\<close>, \<open>str_kwargs\<close> and \<open>str_result\<close> say what \<^verbatim>\<open>str\<close> does on the
  argument tuple, on the keyword dictionary and on a result, return the text or raise.
\<close>

record ('a, 'k, 'r) pyfunc =
  fn_name :: string
  fn_call :: "'a \<Rightarrow> 'k \<Rightarrow> exn + 'r"

record ('a, 'k, 'r) pystr =
  str_args :: "'a \<Rightarrow> exn + string"
  str_kwargs :: "'k \<Rightarrow> exn + string"
  str_result :: "'r \<Rightarrow> exn + string"

text \<open>
  The dictionary display of the \<^verbatim>\<open>finally\<close> block, evaluated entry by entry; the first
  \<^verbatim>\<open>str\<close> that raises ends it. \<open>result\<close> is \<open>None\<close> while the variable still holds its
  initial \<^verbatim>\<open>None\<close>, whose \<^verbatim>\<open>str\<close> is the text \<^verbatim>\<open>None\<close>.
\<close>

definition log_payload ::
  "('a, 'k, 'r) pystr \<Rightarrow> ('a, 'k, 'r) pyfunc \<Rightarrow> 'a \<Rightarrow> 'k \<Rightarrow> 'r option \<Rightarrow> string option
     \<Rightarrow> string \<Rightarrow> float64 \<Rightarrow> exn + doc" where
  "log_payload py func args kwargs result error_msg status duration =
     (case str_args py args of
        Inl e \<Rightarrow> Inl e
      | Inr a \<Rightarrow>
     (case str_kwargs py kwargs of
        Inl e \<Rightarrow> Inl e
      | Inr k \<Rightarrow>
     (case (case result of None \<Rightarrow> Inr ''None'' | Some v \<Rightarrow> str_result py v) of
        Inl e \<Rightarrow> Inl e
      | Inr res \<Rightarrow>
          Inr [(''function'', FStr (fn_name func)),
               (''args'', FStr a),
               (''kwargs'', FStr k),
               (''result'', FStr res),
               (''exception'', (case error_msg of None \<Rightarrow> FNone | Some m \<Rightarrow> FStr m)),
               (''status'', FStr status),
               (''duration_ms'', FFloat (py_round2 duration))])))"

text \<open>
  The \<^verbatim>\<open>try\<close> and \<^verbatim>\<open>except\<close> clauses: the values of the local variables \<open>result\<close>,
  \<open>error_msg\<close> and \<open>status\<close> when the \<^verbatim>\<open>finally\<close> block starts, from the outcome of
  the call of \<open>func\<close>. An exception that does not derive from \<^verbatim>\<open>Exception\<close> passes the
  \<^verbatim>\<open>except\<close> clause by and leaves the three variables as they were initialised.
\<close>

definition try_except :: "exn + 'r \<Rightarrow> 'r option \<times> string option \<times> string" where
  "try_except outcome =
     (case outcome of
        Inr v \<Rightarrow> (Some v, None, ''success'')
      | Inl e \<Rightarrow> if is_Exception e then (None, Some (exn_msg e), ''error'')
                 else (None, None, ''success''))"

text \<open>
  The wrapper returned by \<^verbatim>\<open>MongoDBLogDecorator.__call__\<close>. The call of \<open>func\<close> is
  taken by its outcome; the time it takes shows in the clock readings. The outcome is kept
  pending while the \<^verbatim>\<open>finally\<close> block runs, and an exception raised inside the
  \<^verbatim>\<open>finally\<close> block takes its place. The factor \<^verbatim>\<open>1000\<close> is converted to the float
  \<^verbatim>\<open>1000.0\<close> by the multiplication.
\<close>

definition wrapper ::
  "('a, 'k, 'r) pystr \<Rightarrow> decorator \<Rightarrow> ('a, 'k, 'r) pyfunc \<Rightarrow> 'a \<Rightarrow> 'k \<Rightarrow> world
     \<Rightarrow> (exn + 'r) \<times> world" where
  "wrapper py self func args kwargs w =
     (let (start_time, w1) = time w;
          outcome = fn_call func args kwargs;
          (result, error_msg, status) = try_except outcome;
          (now, w2) = time w1;
          duration = f_mul (f_sub now start_time) (Finite False 1000)
      in case log_payload py func args kwargs result error_msg status duration of
           Inl e \<Rightarrow> (Inl e, w2)
         | Inr payload \<Rightarrow>
             (case (if status = ''success'' then logger_info (d_logger self) (MsgDict payload) w2
                    else if status = ''error'' then logger_error (d_logger self) (MsgDict payload) w2
                    else (Inr (), w2)) of
                (Inl e, w3) \<Rightarrow> (Inl e, w3)
              | (Inr u, w3) \<Rightarrow> (outcome, w3)))"

section \<open>The example of \<^verbatim>\<open>decorator.py\<close>\<close>

text \<open>The message of the \<^verbatim>\<open>ValueError\<close>, in UTF-8.\<close>

definition negative_price_message :: string where
  "negative_price_message = map char_of
     [234, 176, 128, 234, 178, 169, 236, 157, 128, 32, 236, 157, 140, 236, 136, 152, 236, 157,
      188, 32, 236, 136, 152, 32, 236, 151, 134, 236, 138, 181, 235, 139, 136, 235, 139, 164,
      46 :: nat]"

definition calculate_payment_body :: "pynum \<Rightarrow> pynum \<Rightarrow> exn + pynum" where
  "calculate_payment_body price tax_rate =
     (if num_lt_zero price then Inl (Exn True ''ValueError'' negative_price_message)
      else (case num_add (PyInt 1) tax_rate of
              Inl e \<Rightarrow> Inl e
            | Inr t \<Rightarrow> num_mul price t))"

text \<open>
  The function as the decorator sees it, called with two positional numbers and no keyword
  argument; \<^verbatim>\<open>str\<close> of the argument tuple and of the empty keyword dictionary.
\<close>

definition calculate_payment :: "(pynum \<times> pynum, unit, pynum) pyfunc" where
  "calculate_payment =
     \<lparr>fn_name = ''calculate_payment'',
      fn_call = (\<lambda>(price, tax_rate) kwargs. calculate_payment_body price tax_rate)\<rparr>"

definition str_pair :: "pynum \<times> pynum \<Rightarrow> exn + string" where
  "str_pair p =
     (case num_str (fst p) of
        Inl e \<Rightarrow> Inl e
      | Inr a \<Rightarrow> (case num_str (snd p) of
                    Inl e \<Rightarrow> Inl e
                  | Inr b \<Rightarrow> Inr (''('' @ a @ '', '' @ b @ '')'')))"

definition num_pystr :: "(pynum \<times> pynum, unit, pynum) pystr" where
  "num_pystr = \<lparr>str_args = str_pair, str_kwargs = (\<lambda>u. Inr ''{}''), str_result = num_str\<rparr>"

text \<open>
  The decorator of the example, made in a process that has not touched the logger yet, and
  a call through it.
\<close>

definition log_to_mongo ::
  "string \<Rightarrow> (nat \<Rightarrow> float64) \<Rightarrow> (nat \<Rightarrow> (string \<times> string) option) \<Rightarrow> decorator \<times> world" where
  "log_to_mongo connection_string clk fault =
     MongoDBLogDecorator_init connection_string ''app_logs'' ''function_traces''
       (initial_world clk fault)"

text \<open>
  Making the decorator \<open>n\<close> times in a row with the same three arguments; the world after
  the last \<^verbatim>\<open>__init__\<close>.
\<close>

fun init_times :: "nat \<Rightarrow> string \<Rightarrow> string \<Rightarrow> string \<Rightarrow> world \<Rightarrow> world" where
  "init_times 0 connection_string db_name collection_name w = w"
| "init_times (Suc n) connection_string db_name collection_name w =
     init_times n connection_string db_name collection_name
       (snd (MongoDBLogDecorator_init connection_string db_name collection_name w))"

section \<open>Sample calls\<close>

text \<open>
  Instances of a user-defined class, each described by what its \<^verbatim>\<open>__repr__\<close> does (the
  class leaves \<^verbatim>\<open>__str__\<close> to fall back on it). \<^verbatim>\<open>str\<close> of a tuple puts the \<^verbatim>\<open>repr\<close> of its
  items between parentheses, and the first item whose \<^verbatim>\<open>repr\<close> raises ends it.
\<close>

datatype pyobject = PyObject (repr_of: "exn + string")

fun reprs :: "pyobject list \<Rightarrow> exn + string list" where
  "reprs [] = Inr []"
| "reprs (x # xs) =
     (case repr_of x of
        Inl e \<Rightarrow> Inl e
      | Inr s \<Rightarrow> (case reprs xs of Inl e \<Rightarrow> Inl e | Inr ss \<Rightarrow> Inr (s # ss)))"

fun comma_join :: "string list \<Rightarrow> string" where
  "comma_join [] = ''''"
| "comma_join [s] = s"
| "comma_join (s # t # ss) = s @ '', '' @ comma_join (t # ss)"

definition str_tuple :: "pyobject list \<Rightarrow> exn + string" where
  "str_tuple xs =
     (case reprs xs of
        Inl e \<Rightarrow> Inl e
      | Inr [s] \<Rightarrow> Inr (''('' @ s @ '',)'')
      | Inr ss \<Rightarrow> Inr (''('' @ comma_join ss @ '')''))"

definition obj_pystr :: "(pyobject list, unit, pyobject) pystr" where
  "obj_pystr = \<lparr>str_args = str_tuple, str_kwargs = (\<lambda>u. Inr ''{}''), str_result = repr_of\<rparr>"

text \<open>
  An object whose \<^verbatim>\<open>__repr__\<close> raises and one whose \<^verbatim>\<open>__repr__\<close> returns; a function
  \<^verbatim>\<open>def returning(*args): return x\<close> and a function \<^verbatim>\<open>def raising(*args): raise e\<close>.
\<close>

definition unprintable :: pyobject where
  "unprintable = PyObject (Inl (Exn True ''RuntimeError'' ''no repr''))"

definition printable :: pyobject where
  "printable = PyObject (Inr ''<item>'')"

definition returning :: "pyobject \<Rightarrow> (pyobject list, unit, pyobject) pyfunc" where
  "returning x = \<lparr>fn_name = ''returning'', fn_call = (\<lambda>args kwargs. Inr x)\<rparr>"

definition raising :: "exn \<Rightarrow> (pyobject list, unit, pyobject) pyfunc" where
  "raising e = \<lparr>fn_name = ''raising'', fn_call = (\<lambda>args kwargs. Inl e)\<rparr>"

text \<open>
  A process whose clock advances by \<open>1 / 128\<close> of a second from one reading to the next,
  starting at \<open>1024\<close>, and whose store never fails; the decorator of the example made in it.
\<close>

definition sample_clock :: "nat \<Rightarrow> float64" where
  "sample_clock n = Finite False (1024 + of_nat n / 128)"

definition sample :: "decorator \<times> world" where
  "sample = log_to_mongo ''mongodb://localhost:27017'' sample_clock (\<lambda>n. None)"

definition sample_collection :: collection where
  "sample_collection = (''mongodb://localhost:27017'', ''app_logs'', ''function_traces'')"

text \<open>The same process with a store whose every write fails.\<close>

definition sample_down :: "decorator \<times> world" where
  "sample_down =
     log_to_mongo ''mongodb://localhost:27017'' sample_clock
       (\<lambda>n. Some (''ServerSelectionTimeoutError'', ''connection refused''))"

section \<open>Properties of the dispatch\<close>

lemma emit_dict:
  "msg r = MsgDict d \<Longrightarrow>
   emit h r w =
     (Inr (), r\<lparr>msg := MsgDict (enrich (FDatetime (clock w (ticks w))) (levelname r) d)\<rparr>,
      (case store_fault w (length (insert_calls w)) of
         None \<Rightarrow> w\<lparr>ticks := Suc (ticks w),
                   insert_calls := insert_calls w @ [(h_collection h, enrich (FDatetime (clock w (ticks w))) (levelname r) d)],
                   stored := (stored w)(h_collection h := stored w (h_collection h) @ [enrich (FDatetime (clock w (ticks w))) (levelname r) d])\<rparr>
       | Some (cls, m) \<Rightarrow>
           w\<lparr>ticks := Suc (ticks w),
             insert_calls := insert_calls w @ [(h_collection h, enrich (FDatetime (clock w (ticks w))) (levelname r) d)],
             stderr := stderr w @ [LoggingError (Exn True cls m) (r\<lparr>msg := MsgDict (enrich (FDatetime (clock w (ticks w))) (levelname r) d)\<rparr>)]\<rparr>))"
  by (simp add: emit_def datetime_now_def insert_one_def emit_except_def handleError_def Let_def
      split: option.splits prod.splits)

lemma call_handlers_dict_ok:
  "msg r = MsgDict d \<Longrightarrow> fst (call_handlers hs r w) = Inr ()"
proof (induction hs arbitrary: r w d)
  case Nil
  then show ?case by simp
next
  case (Cons h hs)
  show ?case
  proof (cases "h_level h \<le> levelno r")
    case True
    have "msg (r\<lparr>msg := MsgDict (enrich (FDatetime (clock w (ticks w))) (levelname r) d)\<rparr>) = MsgDict (enrich (FDatetime (clock w (ticks w))) (levelname r) d)"
      by simp
    from Cons.IH[OF this] True Cons.prems show ?thesis
      by (simp add: emit_dict)
  next
    case False
    with Cons show ?thesis by simp
  qed
qed

lemma logger_log_dict_ok: "fst (logger_log name lvl lname (MsgDict p) w) = Inr ()"
proof -
  let ?r = "\<lparr>msg = MsgDict p, levelno = lvl, levelname = lname\<rparr>"
  have ch: "fst (call_handlers hs ?r w) = Inr ()" for hs
    by (rule call_handlers_dict_ok[where d = p]) simp
  have lr: "fst (last_resort ?r w) = Inr ()"
    by (simp add: last_resort_def)
  have "fst (callHandlers l ?r w) = Inr ()" for l
    using ch lr by (simp add: callHandlers_def)
  then show ?thesis
    by (simp add: logger_log_def Let_def case_prod_beta)
qed

lemma logger_log_dict_eq:
  "logger_log name lvl lname (MsgDict p) w = (Inr (), snd (logger_log name lvl lname (MsgDict p) w))"
  using logger_log_dict_ok[of name lvl lname p w] by (simp add: prod_eq_iff)

lemma wrapper_payload_fails:
  assumes "try_except (fn_call func args kwargs) = (result, error_msg, status)"
      and "log_payload py func args kwargs result error_msg status
             (f_mul (f_sub (clock w (Suc (ticks w))) (clock w (ticks w))) (Finite False 1000)) = Inl e"
  shows "wrapper py self func args kwargs w = (Inl e, w\<lparr>ticks := Suc (Suc (ticks w))\<rparr>)"
  using assms by (simp add: wrapper_def time_def)

lemma try_except_status:
  "try_except outcome = (result, error_msg, status) \<Longrightarrow> status = ''success'' \<or> status = ''error''"
  by (auto simp: try_except_def split: sum.splits if_splits)

lemma wrapper_payload_ok:
  assumes te: "try_except (fn_call func args kwargs) = (result, error_msg, status)"
      and lp: "log_payload py func args kwargs result error_msg status
             (f_mul (f_sub (clock w (Suc (ticks w))) (clock w (ticks w))) (Finite False 1000)) = Inr p"
  shows "wrapper py self func args kwargs w =
           (fn_call func args kwargs,
            snd (logger_log (d_logger self) (if status = ''success'' then INFO else ERROR)
                   (if status = ''success'' then ''INFO'' else ''ERROR'') (MsgDict p)
                   (w\<lparr>ticks := Suc (Suc (ticks w))\<rparr>)))"
proof -
  let ?w2 = "w\<lparr>ticks := Suc (Suc (ticks w))\<rparr>"
  from try_except_status[OF te] show ?thesis
  proof
    assume s: "status = ''success''"
    have "logger_info (d_logger self) (MsgDict p) ?w2 = (Inr (), snd (logger_log (d_logger self) INFO ''INFO'' (MsgDict p) ?w2))"
      unfolding logger_info_def by (rule logger_log_dict_eq)
    with te lp s show ?thesis by (simp add: wrapper_def time_def)
  next
    assume s: "status = ''error''"
    have "logger_error (d_logger self) (MsgDict p) ?w2 = (Inr (), snd (logger_log (d_logger self) ERROR ''ERROR'' (MsgDict p) ?w2))"
      unfolding logger_error_def by (rule logger_log_dict_eq)
    with te lp s show ?thesis by (simp add: wrapper_def time_def)
  qed
qed


lemma logger_all_fields:
  "(l::logger)\<lparr>l_level := a, l_handlers := b\<rparr> = \<lparr>l_level = a, l_handlers = b\<rparr>"
  by (cases l) simp

lemma init_fresh:
  "l_handlers (loggers w0 ''MongoDBLogger'') = [] \<Longrightarrow>
   MongoDBLogDecorator_init c d n w0 =
     (\<lparr>d_collection = (c, d, n), d_logger = ''MongoDBLogger''\<rparr>,
      w0\<lparr>loggers := (loggers w0)(''MongoDBLogger'' :=
            \<lparr>l_level = DEBUG, l_handlers = [MongoDBHandler_init (c, d, n)]\<rparr>)\<rparr>)"
  by (simp add: MongoDBLogDecorator_init_def setLevel_def addHandler_def Let_def logger_all_fields)

lemma init_again:
  "l_handlers (loggers w ''MongoDBLogger'') \<noteq> [] \<Longrightarrow>
   MongoDBLogDecorator_init c d n w =
     (\<lparr>d_collection = (c, d, n), d_logger = ''MongoDBLogger''\<rparr>,
      w\<lparr>loggers := (loggers w)(''MongoDBLogger'' := (loggers w ''MongoDBLogger'')\<lparr>l_level := DEBUG\<rparr>)\<rparr>)"
  by (simp add: MongoDBLogDecorator_init_def setLevel_def Let_def)

lemma logger_log_single:
  assumes "l_level (loggers w name) = DEBUG"
      and "l_handlers (loggers w name) = [MongoDBHandler_init c]"
      and "DEBUG \<le> lvl"
  shows "snd (logger_log name lvl lname (MsgDict p) w) =
     (case store_fault w (length (insert_calls w)) of
         None \<Rightarrow> w\<lparr>ticks := Suc (ticks w),
                   insert_calls := insert_calls w @ [(c, enrich (FDatetime (clock w (ticks w))) lname p)],
                   stored := (stored w)(c := stored w c @ [enrich (FDatetime (clock w (ticks w))) lname p])\<rparr>
       | Some (cls, m) \<Rightarrow>
           w\<lparr>ticks := Suc (ticks w),
             insert_calls := insert_calls w @ [(c, enrich (FDatetime (clock w (ticks w))) lname p)],
             stderr := stderr w @ [LoggingError (Exn True cls m)
                \<lparr>msg = MsgDict (enrich (FDatetime (clock w (ticks w))) lname p), levelno = lvl, levelname = lname\<rparr>]\<rparr>)"
  using assms
  by (simp add: logger_log_def getEffectiveLevel_def callHandlers_def emit_dict
        MongoDBHandler_init_def DEBUG_def NOTSET_def Let_def split: option.splits)

lemma map_of_enrich:
  "map_of (enrich ts lvl d) k =
     (if k = ''level'' then Some (FStr lvl) else if k = ''timestamp'' then Some ts else map_of d k)"
  by (simp add: enrich_def update_conv')

lemma log_payload_ok:
  assumes "str_args py args = Inr a" and "str_kwargs py kwargs = Inr k"
      and "(case result of None \<Rightarrow> Inr ''None'' | Some v \<Rightarrow> str_result py v) = Inr rs"
  shows "log_payload py func args kwargs result error_msg status duration =
           Inr [(''function'', FStr (fn_name func)), (''args'', FStr a), (''kwargs'', FStr k),
                (''result'', FStr rs),
                (''exception'', (case error_msg of None \<Rightarrow> FNone | Some m \<Rightarrow> FStr m)),
                (''status'', FStr status), (''duration_ms'', FFloat (py_round2 duration))]"
  using assms by (simp add: log_payload_def)

lemma wrapper_single_handler:
  fixes w :: world
  defines "w2 \<equiv> w\<lparr>ticks := Suc (Suc (ticks w))\<rparr>"
  assumes lv: "l_level (loggers w (d_logger self)) = DEBUG"
      and hs: "l_handlers (loggers w (d_logger self)) = [MongoDBHandler_init c]"
      and te: "try_except (fn_call func args kwargs) = (result, error_msg, status)"
      and lp: "log_payload py func args kwargs result error_msg status
             (f_mul (f_sub (clock w (Suc (ticks w))) (clock w (ticks w))) (Finite False 1000)) = Inr p"
      and ln: "lname = (if status = ''success'' then ''INFO'' else ''ERROR'')"
      and dc: "doc = enrich (FDatetime (clock w (Suc (Suc (ticks w))))) lname p"
  shows "wrapper py self func args kwargs w =
           (fn_call func args kwargs,
            (case store_fault w (length (insert_calls w)) of
               None \<Rightarrow> w\<lparr>ticks := Suc (Suc (Suc (ticks w))),
                         insert_calls := insert_calls w @ [(c, doc)],
                         stored := (stored w)(c := stored w c @ [doc])\<rparr>
             | Some (cls, m) \<Rightarrow>
                 w\<lparr>ticks := Suc (Suc (Suc (ticks w))),
                   insert_calls := insert_calls w @ [(c, doc)],
                   stderr := stderr w @ [LoggingError (Exn True cls m)
                      \<lparr>msg = MsgDict doc,
                       levelno = (if status = ''success'' then INFO else ERROR),
                       levelname = lname\<rparr>]\<rparr>))"
proof -
  let ?lvl = "if status = ''success'' then INFO else ERROR"
  have a: "l_level (loggers w2 (d_logger self)) = DEBUG"
       "l_handlers (loggers w2 (d_logger self)) = [MongoDBHandler_init c]"
    using lv hs by (simp_all add: w2_def)
  have b: "DEBUG \<le> ?lvl"
    by (simp add: DEBUG_def INFO_def ERROR_def)
  note single = logger_log_single[OF a b, of lname p]
  have "wrapper py self func args kwargs w =
          (fn_call func args kwargs, snd (logger_log (d_logger self) ?lvl lname (MsgDict p) w2))"
    unfolding w2_def ln by (rule wrapper_payload_ok[OF te lp])
  then show ?thesis
    unfolding single dc by (simp add: w2_def split: option.splits)
qed


lemma try_except_cases:
  "try_except oc =
     (case oc of Inr v \<Rightarrow> Some v | Inl e \<Rightarrow> None,
      case oc of Inr v \<Rightarrow> None | Inl e \<Rightarrow> if is_Exception e then Some (exn_msg e) else None,
      if (case oc of Inr v \<Rightarrow> False | Inl e \<Rightarrow> is_Exception e) then ''error'' else ''success'')"
  by (simp add: try_except_def split: sum.splits)

lemma wrapper_logged:
  assumes lv: "l_level (loggers w (d_logger self)) = DEBUG"
      and hs: "l_handlers (loggers w (d_logger self)) = [MongoDBHandler_init c]"
      and sa: "str_args py args = Inr a"
      and sk: "str_kwargs py kwargs = Inr k"
      and sr: "(case fn_call func args kwargs of Inr v \<Rightarrow> str_result py v | Inl e \<Rightarrow> Inr ''None'') = Inr rs"
      and ca: "caught = (case fn_call func args kwargs of Inr v \<Rightarrow> False | Inl e \<Rightarrow> is_Exception e)"
      and dc: "doc = enrich (FDatetime (clock w (Suc (Suc (ticks w))))) (if caught then ''ERROR'' else ''INFO'')
                 [(''function'', FStr (fn_name func)), (''args'', FStr a), (''kwargs'', FStr k),
                  (''result'', FStr rs),
                  (''exception'', (case fn_call func args kwargs of
                                     Inr v \<Rightarrow> FNone
                                   | Inl e \<Rightarrow> if is_Exception e then FStr (exn_msg e) else FNone)),
                  (''status'', FStr (if caught then ''error'' else ''success'')),
                  (''duration_ms'', FFloat (py_round2
                     (f_mul (f_sub (clock w (Suc (ticks w))) (clock w (ticks w))) (Finite False 1000))))]"
  shows "wrapper py self func args kwargs w =
           (fn_call func args kwargs,
            (case store_fault w (length (insert_calls w)) of
               None \<Rightarrow> w\<lparr>ticks := Suc (Suc (Suc (ticks w))),
                         insert_calls := insert_calls w @ [(c, doc)],
                         stored := (stored w)(c := stored w c @ [doc])\<rparr>
             | Some (cls, m) \<Rightarrow>
                 w\<lparr>ticks := Suc (Suc (Suc (ticks w))),
                   insert_calls := insert_calls w @ [(c, doc)],
                   stderr := stderr w @ [LoggingError (Exn True cls m)
                      \<lparr>msg = MsgDict doc,
                       levelno = (if caught then ERROR else INFO),
                       levelname = (if caught then ''ERROR'' else ''INFO'')\<rparr>]\<rparr>))"
proof -
  let ?oc = "fn_call func args kwargs"
  let ?result = "case ?oc of Inr v \<Rightarrow> Some v | Inl e \<Rightarrow> None"
  let ?error_msg = "case ?oc of Inr v \<Rightarrow> None | Inl e \<Rightarrow> if is_Exception e then Some (exn_msg e) else None"
  let ?status = "if caught then ''error'' else ''success''"
  let ?duration = "f_mul (f_sub (clock w (Suc (ticks w))) (clock w (ticks w))) (Finite False 1000)"
  have te: "try_except ?oc = (?result, ?error_msg, ?status)"
    unfolding ca by (rule try_except_cases)
  have sr': "(case ?result of None \<Rightarrow> Inr ''None'' | Some v \<Rightarrow> str_result py v) = Inr rs"
    using sr by (simp split: sum.splits)
  have ex: "(case ?error_msg of None \<Rightarrow> FNone | Some m \<Rightarrow> FStr m) =
            (case ?oc of Inr v \<Rightarrow> FNone | Inl e \<Rightarrow> if is_Exception e then FStr (exn_msg e) else FNone)"
    by (simp split: sum.splits)
  note lp = log_payload_ok[OF sa sk sr', of func ?error_msg ?status ?duration, unfolded ex]
  have ln: "(if caught then ''ERROR'' else ''INFO'') = (if ?status = ''success'' then ''INFO'' else ''ERROR'')"
    by simp
  have lv': "(if caught then ERROR else INFO) = (if ?status = ''success'' then INFO else ERROR)"
    by simp
  show ?thesis
    unfolding lv' by (rule wrapper_single_handler[OF lv hs te lp ln dc])
qed

lemma wrapper_logged_outcome:
  assumes "str_args py args = Inr a" and "str_kwargs py kwargs = Inr k"
      and "(case fn_call func args kwargs of Inr v \<Rightarrow> str_result py v | Inl e \<Rightarrow> Inr ''None'') = Inr rs"
  shows "fst (wrapper py self func args kwargs w) = fn_call func args kwargs"
proof -
  let ?oc = "fn_call func args kwargs"
  obtain result error_msg status where te: "try_except ?oc = (result, error_msg, status)"
    by (cases "try_except ?oc") auto
  then have r: "result = (case ?oc of Inr v \<Rightarrow> Some v | Inl e \<Rightarrow> None)"
    by (simp add: try_except_cases)
  have "(case result of None \<Rightarrow> Inr ''None'' | Some v \<Rightarrow> str_result py v) = Inr rs"
    using assms(3) unfolding r by (simp split: sum.splits)
  from log_payload_ok[OF assms(1,2) this] wrapper_payload_ok[OF te] show ?thesis
    by simp
qed

lemma emit_entry:
  assumes "log_entry_of (msg r) = Inr d"
      and "doc = enrich (FDatetime (clock w (ticks w))) (levelname r) d"
      and "r' = (case msg r of MsgDict x \<Rightarrow> r\<lparr>msg := MsgDict doc\<rparr> | _ \<Rightarrow> r)"
  shows "emit h r w =
     (Inr (), r',
      (case store_fault w (length (insert_calls w)) of
         None \<Rightarrow> w\<lparr>ticks := Suc (ticks w),
                   insert_calls := insert_calls w @ [(h_collection h, doc)],
                   stored := (stored w)(h_collection h := stored w (h_collection h) @ [doc])\<rparr>
       | Some (cls, m) \<Rightarrow>
           w\<lparr>ticks := Suc (ticks w),
             insert_calls := insert_calls w @ [(h_collection h, doc)],
             stderr := stderr w @ [LoggingError (Exn True cls m) r']\<rparr>))"
  unfolding assms(3) assms(2) using assms(1)
  by (simp add: emit_def datetime_now_def insert_one_def emit_except_def handleError_def Let_def
      split: option.splits prod.splits)

section \<open>The handler\<close>

text \<open>
  Claim C8. Every call of \<^verbatim>\<open>emit\<close> whose message is a dictionary \<open>d\<close>, or a plain string
  \<open>s\<close> (then \<open>d\<close> is the dictionary holding \<open>s\<close> under the key \<^verbatim>\<open>message\<close>), makes exactly
  one call of \<^verbatim>\<open>insert_one\<close>, on the handler's collection. The document written is \<open>d\<close>
  with the handler's timestamp under \<^verbatim>\<open>timestamp\<close> and the level name under \<^verbatim>\<open>level\<close>;
  every other key keeps the value it has in \<open>d\<close>. When the write does not fail, the
  collection holds that document at its end.
\<close>

theorem emit_enriches_and_writes_once:
  assumes "msg r = MsgDict d \<or> (msg r = MsgStr s \<and> d = [(''message'', FStr s)])"
      and "ts = FDatetime (clock w (ticks w))"
      and "doc = enrich ts (levelname r) d"
  shows "insert_calls (snd (snd (emit self r w))) = insert_calls w @ [(h_collection self, doc)]
       \<and> (store_fault w (length (insert_calls w)) = None \<longrightarrow>
            stored (snd (snd (emit self r w))) =
              (stored w)(h_collection self := stored w (h_collection self) @ [doc]))
       \<and> map_of doc ''timestamp'' = Some ts
       \<and> map_of doc ''level'' = Some (FStr (levelname r))
       \<and> (\<forall>k. k \<noteq> ''timestamp'' \<longrightarrow> k \<noteq> ''level'' \<longrightarrow> map_of doc k = map_of d k)"
proof -
  from assms(1) have le: "log_entry_of (msg r) = Inr d" by auto
  note e = emit_entry[OF le assms(3)[unfolded assms(2)] refl, of self]
  have 1: "insert_calls (snd (snd (emit self r w))) = insert_calls w @ [(h_collection self, doc)]"
    unfolding e assms(2,3) by (simp split: option.splits)
  have 2: "store_fault w (length (insert_calls w)) = None \<longrightarrow>
            stored (snd (snd (emit self r w))) =
              (stored w)(h_collection self := stored w (h_collection self) @ [doc])"
    unfolding e assms(2,3) by simp
  show ?thesis
    using 1 2 by (simp add: assms(3) map_of_enrich)
qed

theorem emit_enriches_and_writes_once_witness:
  "insert_calls (snd (snd (emit (MongoDBHandler_init sample_collection)
      \<lparr>msg = MsgStr ''started'', levelno = INFO, levelname = ''INFO''\<rparr> (snd sample))))
     = [(sample_collection,
         [(''message'', FStr ''started''), (''timestamp'', FDatetime (Finite False 1024)),
          (''level'', FStr ''INFO'')])]
   \<and> stored (snd (snd (emit (MongoDBHandler_init sample_collection)
      \<lparr>msg = MsgStr ''started'', levelno = INFO, levelname = ''INFO''\<rparr> (snd sample)))) sample_collection
     = [[(''message'', FStr ''started''), (''timestamp'', FDatetime (Finite False 1024)),
          (''level'', FStr ''INFO'')]]"
  using emit_enriches_and_writes_once[of "\<lparr>msg = MsgStr ''started'', levelno = INFO, levelname = ''INFO''\<rparr>"
      "[(''message'', FStr ''started'')]" "''started''" "FDatetime (Finite False 1024)" "snd sample"
      "[(''message'', FStr ''started''), (''timestamp'', FDatetime (Finite False 1024)), (''level'', FStr ''INFO'')]"
      "MongoDBHandler_init sample_collection"]
  by (simp add: sample_def log_to_mongo_def initial_world_def MongoDBLogDecorator_init_def setLevel_def
        addHandler_def new_logger_def Let_def sample_clock_def enrich_def MongoDBHandler_init_def)

end
